theory Spec2Isabelle
  imports Complex_Main "HOL-Library.Sublist"
begin

section \<open>Data model of \<^verbatim>\<open>buffer_manager.py\<close>\<close>

text \<open>
  The embedding follows \<^verbatim>\<open>src/python-backend/buffer_manager.py\<close> method by method.
  A numpy array is the list of its values; a timestamp (a Python float read from
  \<^verbatim>\<open>time.time()\<close> or passed by the caller) is the real number it stands for, and every
  reading of the clock is an explicit argument \<open>now\<close>. Floats are compared exactly, as the
  machine compares them; their subtraction rounds, so wherever the code subtracts two
  floats the operation is an explicit argument \<open>fsub\<close> of which nothing is assumed. The instance attributes of \<^verbatim>\<open>BufferManager\<close> are the
  fields of the record \<open>state\<close>; every method takes the state and returns the new one.
  Calls that leave the process (directory creation, the video and audio writers, the
  metadata file, console output) are appended, in program order, to the field \<open>effects\<close>;
  whether such a call raises is an explicit argument of the method that makes it.
\<close>

type_synonym ndarray = "int list"

text \<open>The dictionaries \<^verbatim>\<open>{'audio': ..., 'timestamp': ...}\<close> and \<^verbatim>\<open>{'frame': ..., 'timestamp': ...}\<close>.\<close>

record chunk_data =
  audio :: ndarray
  timestamp :: real

record frame_data =
  frame :: ndarray
  timestamp :: real

text \<open>
  A \<^verbatim>\<open>pathlib\<close> path is kept as the expression that builds it: \<^verbatim>\<open>Path(x)\<close>, or \<^verbatim>\<open>p / name\<close>.
  Which file such an expression names (an absolute right operand replaces the left one,
  separators are normalised, the rules differ between platforms) is decided by the library
  and is not modelled; no statement below depends on it.
\<close>

datatype path = Path string | Slash path string

text \<open>The metadata dictionary built by \<^verbatim>\<open>stop_incident_recording\<close> (lines 276-285). Its
  \<^verbatim>\<open>directory\<close> is \<^verbatim>\<open>str\<close> of the recording's directory, kept as that path.\<close>

record metadata =
  incident_id :: string
  type :: string
  start_time :: real
  end_time :: real
  duration :: real
  video_frames_count :: nat
  audio_chunks_count :: nat
  directory :: path

text \<open>
  One entry of \<^verbatim>\<open>self.incident_recordings\<close> (lines 178-186). A writer is referred to by the
  path it was opened on; \<open>None\<close> is Python's \<^verbatim>\<open>None\<close>.
\<close>

record recording =
  type :: string
  start_time :: real
  video_frames :: "frame_data list"
  audio_chunks :: "chunk_data list"
  directory :: path
  video_writer :: "path option"
  audio_writer :: "path option"

text \<open>The texts printed by the module, one constructor per \<^verbatim>\<open>print\<close> call.\<close>

datatype message =
    Initialized
  | ManagerStarted
  | AlreadyInProgress string
  | StartedRecording string
  | ErrorStarting
  | ErrorAddingFrame
  | ErrorAddingAudio
  | StoppedRecording string real
  | ErrorStopping

text \<open>Calls issued to the outside world. A call is recorded when it is made, whether it
  then returns or raises.\<close>

datatype event =
    Mkdir path
  | OpenVideoWriter path
  | OpenAudioWriter path
  | SetNChannels path nat
  | SetSampWidth path nat
  | SetFrameRate path nat
  | VideoWrite path ndarray
  | AudioWriteFrames path ndarray
  | VideoRelease path
  | AudioClose path
  | JsonDump path metadata
  | Print message

text \<open>\<^verbatim>\<open>collections.deque(maxlen=n)\<close>: the bound is fixed when the deque is built.\<close>

record 'a deque =
  maxlen :: "nat option"
  items :: "'a list"

text \<open>The exceptions of \<^verbatim>\<open>queue.Queue\<close>.\<close>

datatype exn = Full | Empty

record state =
  video_buffer_size :: nat
  audio_buffer_size :: nat
  max_incident_duration :: nat
  video_buffer :: "frame_data deque"
  audio_buffer :: "chunk_data deque"
  audio_channels :: nat
  audio_sample_rate :: nat
  incident_recordings :: "string \<rightharpoonup> recording"
  is_running :: bool
  video_queue :: "frame_data list"
  audio_queue :: "chunk_data list"
  output_dir :: path
  effects :: "event list"

text \<open>Which of the outside calls of \<^verbatim>\<open>start_incident_recording\<close> raise.\<close>

record start_io =
  mkdir_raises :: bool
  video_open_raises :: bool
  audio_open_raises :: bool

text \<open>Which of the outside calls of \<^verbatim>\<open>stop_incident_recording\<close> raise.\<close>

record stop_io =
  release_raises :: bool
  close_raises :: bool
  dump_raises :: bool

section \<open>Library operations used by the module\<close>

text \<open>\<^verbatim>\<open>deque.append\<close>: the item is added on the right; a deque that has grown beyond its
  bound loses its leftmost item.\<close>

definition deque_append :: "'a deque \<Rightarrow> 'a \<Rightarrow> 'a deque" where
  "deque_append d x =
     (let xs = items d @ [x]
      in case maxlen d of
           None \<Rightarrow> d\<lparr>items := xs\<rparr>
         | Some n \<Rightarrow> if n < length xs then d\<lparr>items := tl xs\<rparr> else d\<lparr>items := xs\<rparr>)"

text \<open>\<^verbatim>\<open>queue.Queue(maxsize=100)\<close>, lines 46-47.\<close>

definition maxsize :: nat where
  "maxsize = 100"

text \<open>\<^verbatim>\<open>Queue.put_nowait\<close> raises \<^verbatim>\<open>Full\<close> when \<^verbatim>\<open>0 < maxsize <= qsize\<close>.\<close>

definition put_nowait :: "'a list \<Rightarrow> 'a \<Rightarrow> exn + 'a list" where
  "put_nowait q x = (if 0 < maxsize \<and> maxsize \<le> length q then Inl Full else Inr (q @ [x]))"

text \<open>\<^verbatim>\<open>Queue.get_nowait\<close> raises \<^verbatim>\<open>Empty\<close> on an empty queue.\<close>

definition get_nowait :: "'a list \<Rightarrow> exn + ('a \<times> 'a list)" where
  "get_nowait q = (case q of [] \<Rightarrow> Inl Empty | x # rest \<Rightarrow> Inr (x, rest))"

definition emit :: "event \<Rightarrow> state \<Rightarrow> state" where
  "emit e s = s\<lparr>effects := effects s @ [e]\<rparr>"

section \<open>The methods of \<^verbatim>\<open>BufferManager\<close>\<close>

text \<open>\<^verbatim>\<open>__init__\<close> (lines 20-53). The first three arguments are the configuration's
  \<^verbatim>\<open>video_buffer_size\<close>, \<^verbatim>\<open>audio_buffer_size\<close> and \<^verbatim>\<open>max_incident_duration\<close>, absent or
  present; the last is the directory \<^verbatim>\<open>Path(__file__).parent / 'data' / 'recordings'\<close>.\<close>

definition BufferManager_init ::
  "nat option \<Rightarrow> nat option \<Rightarrow> nat option \<Rightarrow> path \<Rightarrow> state" where
  "BufferManager_init cfg_video cfg_audio cfg_max out_dir =
     (let vsize = (case cfg_video of None \<Rightarrow> 30 | Some n \<Rightarrow> n);
          asize = (case cfg_audio of None \<Rightarrow> 10 | Some n \<Rightarrow> n);
          msize = (case cfg_max of None \<Rightarrow> 60 | Some n \<Rightarrow> n)
      in \<lparr>video_buffer_size = vsize,
          audio_buffer_size = asize,
          max_incident_duration = msize,
          video_buffer = \<lparr>maxlen = Some (vsize * 30), items = []\<rparr>,
          audio_buffer = \<lparr>maxlen = Some (asize * 160), items = []\<rparr>,
          audio_channels = 1,
          audio_sample_rate = 16000,
          incident_recordings = Map.empty,
          is_running = False,
          video_queue = [],
          audio_queue = [],
          output_dir = out_dir,
          effects = [Mkdir out_dir, Print Initialized]\<rparr>)"

text \<open>\<^verbatim>\<open>add_video_frame\<close> (lines 55-75), run with no other thread stepping in. \<open>Inl\<close> is an
  exception that leaves the method.\<close>

definition add_video_frame :: "ndarray \<Rightarrow> real option \<Rightarrow> real \<Rightarrow> state \<Rightarrow> exn + state" where
  "add_video_frame frm ts now s =
     (let t = (case ts of None \<Rightarrow> now | Some t' \<Rightarrow> t');
          item = \<lparr>frame = frm, timestamp = t\<rparr>
      in case put_nowait (video_queue s) item of
           Inr q \<Rightarrow> Inr (s\<lparr>video_queue := q\<rparr>)
         | Inl Empty \<Rightarrow> Inl Empty
         | Inl Full \<Rightarrow>
             (case get_nowait (video_queue s) of
                Inl Full \<Rightarrow> Inr s
              | Inl Empty \<Rightarrow> Inl Empty
              | Inr (oldest, q1) \<Rightarrow>
                  (case put_nowait q1 item of
                     Inr q2 \<Rightarrow> Inr (s\<lparr>video_queue := q2\<rparr>)
                   | Inl Full \<Rightarrow> Inr (s\<lparr>video_queue := q1\<rparr>)
                   | Inl Empty \<Rightarrow> Inl Empty)))"

text \<open>\<^verbatim>\<open>add_audio_chunk\<close> (lines 77-97).\<close>

definition add_audio_chunk :: "ndarray \<Rightarrow> real option \<Rightarrow> real \<Rightarrow> state \<Rightarrow> exn + state" where
  "add_audio_chunk audio_data ts now s =
     (let t = (case ts of None \<Rightarrow> now | Some t' \<Rightarrow> t');
          item = \<lparr>audio = audio_data, timestamp = t\<rparr>
      in case put_nowait (audio_queue s) item of
           Inr q \<Rightarrow> Inr (s\<lparr>audio_queue := q\<rparr>)
         | Inl Empty \<Rightarrow> Inl Empty
         | Inl Full \<Rightarrow>
             (case get_nowait (audio_queue s) of
                Inl Full \<Rightarrow> Inr s
              | Inl Empty \<Rightarrow> Inl Empty
              | Inr (oldest, q1) \<Rightarrow>
                  (case put_nowait q1 item of
                     Inr q2 \<Rightarrow> Inr (s\<lparr>audio_queue := q2\<rparr>)
                   | Inl Full \<Rightarrow> Inr (s\<lparr>audio_queue := q1\<rparr>)
                   | Inl Empty \<Rightarrow> Inl Empty)))"

text \<open>One pass through the body of the loop of \<^verbatim>\<open>process_video_buffer\<close> (lines 102-113):
  \<^verbatim>\<open>get(timeout=1)\<close> hands over the head of the queue, or raises \<^verbatim>\<open>Empty\<close> and the pass
  changes nothing.\<close>

definition process_video_buffer_pass :: "state \<Rightarrow> state" where
  "process_video_buffer_pass s =
     (case video_queue s of
        [] \<Rightarrow> s
      | frame_data # rest \<Rightarrow>
          s\<lparr>video_queue := rest, video_buffer := deque_append (video_buffer s) frame_data\<rparr>)"

definition process_audio_buffer_pass :: "state \<Rightarrow> state" where
  "process_audio_buffer_pass s =
     (case audio_queue s of
        [] \<Rightarrow> s
      | audio_data # rest \<Rightarrow>
          s\<lparr>audio_queue := rest, audio_buffer := deque_append (audio_buffer s) audio_data\<rparr>)"

text \<open>The loops \<^verbatim>\<open>while self.is_running\<close> of the two writer threads (lines 99-129). The
  flag is cleared by another thread, so the loop is given the number of passes it is
  observed for.\<close>

fun process_video_buffer :: "nat \<Rightarrow> state \<Rightarrow> state" where
  "process_video_buffer 0 s = s"
| "process_video_buffer (Suc n) s =
     (if is_running s then process_video_buffer n (process_video_buffer_pass s) else s)"

fun process_audio_buffer :: "nat \<Rightarrow> state \<Rightarrow> state" where
  "process_audio_buffer 0 s = s"
| "process_audio_buffer (Suc n) s =
     (if is_running s then process_audio_buffer n (process_audio_buffer_pass s) else s)"






text \<open>\<^verbatim>\<open>get_video_buffer\<close> and \<^verbatim>\<open>get_audio_buffer\<close> (lines 131-163). The first argument is
  the machine's \<^verbatim>\<open>current_time - duration\<close>: the subtraction of a float, or of an integer
  number of seconds, from a float, with whatever conversion and rounding it makes.\<close>

definition get_video_buffer ::
  "(real \<Rightarrow> real \<Rightarrow> real) \<Rightarrow> real option \<Rightarrow> real \<Rightarrow> state \<Rightarrow> frame_data list \<times> state" where
  "get_video_buffer fsub dur now s =
     (let d = (case dur of None \<Rightarrow> real (video_buffer_size s) | Some d' \<Rightarrow> d');
          current_time = now;
          cutoff_time = fsub current_time d;
          frames = [frame_data \<leftarrow> items (video_buffer s).
                      frame_data.timestamp frame_data \<ge> cutoff_time]
      in (frames, s))"

definition get_audio_buffer ::
  "(real \<Rightarrow> real \<Rightarrow> real) \<Rightarrow> real option \<Rightarrow> real \<Rightarrow> state \<Rightarrow> chunk_data list \<times> state" where
  "get_audio_buffer fsub dur now s =
     (let d = (case dur of None \<Rightarrow> real (audio_buffer_size s) | Some d' \<Rightarrow> d');
          current_time = now;
          cutoff_time = fsub current_time d;
          chunks = [chunk_data \<leftarrow> items (audio_buffer s).
                      chunk_data.timestamp chunk_data \<ge> cutoff_time]
      in (chunks, s))"

text \<open>\<^verbatim>\<open>start_incident_recording\<close> (lines 165-210). Every raise inside the \<^verbatim>\<open>try\<close> ends in
  the handler of line 208, which prints and returns \<^verbatim>\<open>False\<close>.\<close>

definition start_incident_recording ::
  "start_io \<Rightarrow> real \<Rightarrow> string \<Rightarrow> string \<Rightarrow> state \<Rightarrow> bool \<times> state" where
  "start_incident_recording io now iid incident_type s =
     (if incident_recordings s iid \<noteq> None then
        (False, emit (Print (AlreadyInProgress iid)) s)
      else
        let incident_dir = Slash (output_dir s) iid;
            s1 = emit (Mkdir incident_dir) s
        in if mkdir_raises io then (False, emit (Print ErrorStarting) s1)
           else
             let r0 = \<lparr>type = incident_type, start_time = now, video_frames = [],
                       audio_chunks = [], directory = incident_dir,
                       video_writer = None, audio_writer = None\<rparr>;
                 s2 = s1\<lparr>incident_recordings := (incident_recordings s1)(iid \<mapsto> r0)\<rparr>;
                 video_path = Slash incident_dir (iid @ ''_video.mp4'');
                 s3 = emit (OpenVideoWriter video_path) s2
             in if video_open_raises io then (False, emit (Print ErrorStarting) s3)
                else
                  let r1 = r0\<lparr>video_writer := Some video_path\<rparr>;
                      s4 = s3\<lparr>incident_recordings :=
                                (incident_recordings s3)(iid \<mapsto> r1)\<rparr>;
                      audio_path = Slash incident_dir (iid @ ''_audio.wav'');
                      s5 = emit (OpenAudioWriter audio_path) s4
                  in if audio_open_raises io then (False, emit (Print ErrorStarting) s5)
                     else
                       let r2 = r1\<lparr>audio_writer := Some audio_path\<rparr>;
                           s6 = s5\<lparr>incident_recordings :=
                                     (incident_recordings s5)(iid \<mapsto> r2)\<rparr>;
                           s7 = emit (SetNChannels audio_path (audio_channels s6)) s6;
                           s8 = emit (SetSampWidth audio_path 2) s7;
                           s9 = emit (SetFrameRate audio_path (audio_sample_rate s8)) s8
                       in (True, emit (Print (StartedRecording iid)) s9))"

text \<open>\<^verbatim>\<open>add_incident_frame\<close> (lines 212-232); the first argument says whether
  \<^verbatim>\<open>video_writer.write\<close> raises.\<close>

definition add_incident_frame :: "bool \<Rightarrow> real \<Rightarrow> string \<Rightarrow> ndarray \<Rightarrow> state \<Rightarrow> state" where
  "add_incident_frame write_raises now iid frm s =
     (case incident_recordings s iid of
        None \<Rightarrow> s
      | Some recording \<Rightarrow>
          let s1 = (case video_writer recording of
                      None \<Rightarrow> s
                    | Some w \<Rightarrow> emit (VideoWrite w frm) s)
          in if video_writer recording \<noteq> None \<and> write_raises
             then emit (Print ErrorAddingFrame) s1
             else s1\<lparr>incident_recordings := (incident_recordings s1)(iid \<mapsto>
                       recording\<lparr>video_frames := video_frames recording @
                                    [\<lparr>frame = frm, timestamp = now\<rparr>]\<rparr>)\<rparr>)"

text \<open>\<^verbatim>\<open>add_incident_audio\<close> (lines 234-254).\<close>

definition add_incident_audio :: "bool \<Rightarrow> real \<Rightarrow> string \<Rightarrow> ndarray \<Rightarrow> state \<Rightarrow> state" where
  "add_incident_audio write_raises now iid audio_data s =
     (case incident_recordings s iid of
        None \<Rightarrow> s
      | Some recording \<Rightarrow>
          let s1 = (case audio_writer recording of
                      None \<Rightarrow> s
                    | Some w \<Rightarrow> emit (AudioWriteFrames w audio_data) s)
          in if audio_writer recording \<noteq> None \<and> write_raises
             then emit (Print ErrorAddingAudio) s1
             else s1\<lparr>incident_recordings := (incident_recordings s1)(iid \<mapsto>
                       recording\<lparr>audio_chunks := audio_chunks recording @
                                    [\<lparr>audio = audio_data, timestamp = now\<rparr>]\<rparr>)\<rparr>)"

text \<open>\<^verbatim>\<open>stop_incident_recording\<close> (lines 256-300). Every raise inside the \<^verbatim>\<open>try\<close> ends in the
  handler of line 298, which prints and returns \<^verbatim>\<open>None\<close>.\<close>

definition stop_incident_recording ::
  "stop_io \<Rightarrow> real \<Rightarrow> string \<Rightarrow> state \<Rightarrow> metadata option \<times> state" where
  "stop_incident_recording io now iid s =
     (case incident_recordings s iid of
        None \<Rightarrow> (None, s)
      | Some recording \<Rightarrow>
          let end_t = now;
              dur = end_t - recording.start_time recording;
              s1 = (case video_writer recording of
                      None \<Rightarrow> s
                    | Some w \<Rightarrow> emit (VideoRelease w) s)
          in if video_writer recording \<noteq> None \<and> release_raises io
             then (None, emit (Print ErrorStopping) s1)
             else
               let s2 = (case audio_writer recording of
                           None \<Rightarrow> s1
                         | Some w \<Rightarrow> emit (AudioClose w) s1)
               in if audio_writer recording \<noteq> None \<and> close_raises io
                  then (None, emit (Print ErrorStopping) s2)
                  else
                    let md = \<lparr>incident_id = iid,
                              type = recording.type recording,
                              start_time = recording.start_time recording,
                              end_time = end_t,
                              duration = dur,
                              video_frames_count = length (video_frames recording),
                              audio_chunks_count = length (audio_chunks recording),
                              directory = recording.directory recording\<rparr>;
                        metadata_path = Slash (recording.directory recording)
                                          (iid @ ''_metadata.json'');
                        s3 = emit (JsonDump metadata_path md) s2
                    in if dump_raises io then (None, emit (Print ErrorStopping) s3)
                       else
                         let s4 = s3\<lparr>incident_recordings :=
                                       (incident_recordings s3)(iid := None)\<rparr>
                         in (Some md, emit (Print (StoppedRecording iid dur)) s4))"

text \<open>\<^verbatim>\<open>start\<close> (lines 340-351): the two writer threads it launches are
  \<open>process_video_buffer\<close> and \<open>process_audio_buffer\<close>.\<close>

definition start :: "state \<Rightarrow> state" where
  "start s = emit (Print ManagerStarted) (s\<lparr>is_running := True\<rparr>)"

section \<open>Observations on the effect log\<close>

text \<open>The frames and chunks handed to the writer opened on a path, in the order of the calls.\<close>

fun video_writes :: "path \<Rightarrow> event list \<Rightarrow> ndarray list" where
  "video_writes p [] = []"
| "video_writes p (VideoWrite q f # es) = (if q = p then f # video_writes p es else video_writes p es)"
| "video_writes p (e # es) = video_writes p es"

fun audio_writes :: "path \<Rightarrow> event list \<Rightarrow> ndarray list" where
  "audio_writes p [] = []"
| "audio_writes p (AudioWriteFrames q a # es) = (if q = p then a # audio_writes p es else audio_writes p es)"
| "audio_writes p (e # es) = audio_writes p es"

section \<open>Concrete inputs\<close>

text \<open>
  In the closed statements of this theory the subtraction of floats is passed as the exact
  \<open>(-)\<close>: their operands are small integers, on which the subtraction of doubles is exact.
\<close>

text \<open>A manager with the default configuration, and outside worlds in which no call raises.\<close>

definition manager0 :: state where
  "manager0 = BufferManager_init None None None (Path ''recordings'')"

definition start_ok :: start_io where
  "start_ok = \<lparr>mkdir_raises = False, video_open_raises = False, audio_open_raises = False\<rparr>"

definition stop_ok :: stop_io where
  "stop_ok = \<lparr>release_raises = False, close_raises = False, dump_raises = False\<rparr>"

text \<open>A small bounded deque.\<close>

definition small_deque :: "nat deque" where
  "small_deque = \<lparr>maxlen = Some 2, items = [1]\<rparr>"


text \<open>Two frames pushed with caller-supplied timestamps 5 and 3, in that order, and then
  moved into the ring buffer by two passes of the writer loop.\<close>

definition pushed_once :: state where
  "pushed_once = (start manager0)\<lparr>video_queue := [\<lparr>frame = [1], timestamp = 5\<rparr>]\<rparr>"

definition pushed_twice :: state where
  "pushed_twice =
     (start manager0)\<lparr>video_queue := [\<lparr>frame = [1], timestamp = 5\<rparr>, \<lparr>frame = [2], timestamp = 3\<rparr>]\<rparr>"

definition buffered_out_of_order :: state where
  "buffered_out_of_order =
     (start manager0)\<lparr>video_queue := [],
       video_buffer := \<lparr>maxlen = Some 900,
                        items = [\<lparr>frame = [1], timestamp = 5\<rparr>, \<lparr>frame = [2], timestamp = 3\<rparr>]\<rparr>\<rparr>"

text \<open>A running manager whose ring buffers hold pre-roll: three frames and two chunks.\<close>

definition with_preroll :: state where
  "with_preroll =
     (start manager0)\<lparr>
       video_buffer := \<lparr>maxlen = Some 900,
                        items = [\<lparr>frame = [1], timestamp = 7\<rparr>, \<lparr>frame = [2], timestamp = 8\<rparr>,
                                 \<lparr>frame = [3], timestamp = 9\<rparr>]\<rparr>,
       audio_buffer := \<lparr>maxlen = Some 1600,
                        items = [\<lparr>audio = [4], timestamp = 8\<rparr>, \<lparr>audio = [5], timestamp = 9\<rparr>]\<rparr>\<rparr>"

text \<open>The state after a successful start of \<^verbatim>\<open>inc1\<close> at time 10 on the default manager.\<close>

definition recording_inc1 :: state where
  "recording_inc1 = snd (start_incident_recording start_ok 10 ''inc1'' ''fight'' manager0)"

text \<open>Outside worlds in which one call raises: opening the audio writer, releasing the
  video writer, closing the audio writer, creating the incident directory, writing the
  metadata file.\<close>

definition audio_open_fails :: start_io where
  "audio_open_fails = \<lparr>mkdir_raises = False, video_open_raises = False, audio_open_raises = True\<rparr>"


definition close_fails :: stop_io where
  "close_fails = \<lparr>release_raises = False, close_raises = True, dump_raises = False\<rparr>"

definition mkdir_fails :: start_io where
  "mkdir_fails = \<lparr>mkdir_raises = True, video_open_raises = False, audio_open_raises = False\<rparr>"



text \<open>One chunk pushed on the running default manager.\<close>

definition pushed_chunk :: state where
  "pushed_chunk = (start manager0)\<lparr>audio_queue := [\<lparr>audio = [4], timestamp = 5\<rparr>]\<rparr>"

section \<open>The ring buffers\<close>


lemma maxlen_deque_append: "maxlen (deque_append d x) = maxlen d"
  by (simp add: deque_append_def Let_def split: option.splits)

lemma items_deque_append:
  assumes "maxlen d = Some cap" and "length (items d) \<le> cap"
  shows "items (deque_append d x) = drop (Suc (length (items d)) - cap) (items d @ [x])"
proof (cases "length (items d) = cap")
  case True
  with assms(1) show ?thesis
    by (cases "items d") (auto simp: deque_append_def Let_def)
next
  case False
  with assms(2) have "length (items d) < cap" by simp
  with assms(1) show ?thesis
    by (simp add: deque_append_def Let_def)
qed

lemma drop_snoc_window:
  "drop (Suc (length (drop (length ys - cap) ys)) - cap) (drop (length ys - cap) ys @ [x])
     = drop (Suc (length ys) - cap) (ys @ [x])"
proof (cases "length ys \<le> cap")
  case True
  then show ?thesis by simp
next
  case False
  then have lt: "cap < length ys" by simp
  then have len: "length (drop (length ys - cap) ys) = cap" by simp
  have e: "Suc (length ys) - cap = Suc (length ys - cap)" using lt by simp
  show ?thesis
    unfolding len e using lt by (cases cap) (simp_all add: drop_Suc tl_drop)
qed

lemma maxlen_foldl_deque_append: "maxlen (foldl deque_append d xs) = maxlen d"
  by (induction xs arbitrary: d) (simp_all add: maxlen_deque_append)

lemma items_foldl_deque_append:
  assumes "maxlen d = Some cap" and "length (items d) \<le> cap"
  shows "items (foldl deque_append d xs) = drop (length (items d @ xs) - cap) (items d @ xs)"
proof (induction xs rule: rev_induct)
  case Nil
  from assms show ?case by simp
next
  case (snoc x xs)
  let ?d = "foldl deque_append d xs"
  let ?ys = "items d @ xs"
  have m: "maxlen ?d = Some cap" by (simp add: maxlen_foldl_deque_append assms)
  have i: "items ?d = drop (length ?ys - cap) ?ys" by (rule snoc)
  have l: "length (items ?d) \<le> cap" unfolding i by simp
  have "items (foldl deque_append d (xs @ [x])) = items (deque_append ?d x)" by simp
  also have "\<dots> = drop (Suc (length (items ?d)) - cap) (items ?d @ [x])"
    by (rule items_deque_append[OF m l])
  also have "\<dots> = drop (Suc (length ?ys) - cap) (?ys @ [x])"
    unfolding i by (rule drop_snoc_window)
  finally show ?case by simp
qed

text \<open>The writer loop, run for as many passes as the queue holds samples, appends the
  queued samples to the ring buffer in queue order.\<close>

lemma process_video_buffer_appends:
  "is_running s \<Longrightarrow>
   video_buffer (process_video_buffer (length (video_queue s)) s)
     = foldl deque_append (video_buffer s) (video_queue s)"
proof (induction "video_queue s" arbitrary: s)
  case Nil
  then show ?case by simp
next
  case (Cons x q)
  from Cons(2) have q: "video_queue s = x # q" by simp
  let ?s = "process_video_buffer_pass s"
  have 1: "video_queue ?s = q" "is_running ?s" "video_buffer ?s = deque_append (video_buffer s) x"
    using q Cons(3) by (simp_all add: process_video_buffer_pass_def)
  from Cons(1)[of ?s] 1 have "video_buffer (process_video_buffer (length q) ?s)
     = foldl deque_append (deque_append (video_buffer s) x) q" by simp
  with q Cons(3) show ?case by simp
qed

text \<open>
  Claim C3. A ring buffer is a deque built with \<open>maxlen = buffer seconds * rate\<close> (30 for
  video, 160 for audio). Whatever it holds, after any sequence of appends it holds the most
  recent \<open>maxlen\<close> samples, in the order of appending, and never more than \<open>maxlen\<close>;
  once more than \<open>maxlen\<close> samples have been appended these are the last \<open>maxlen\<close>
  appended ones; an append to a full buffer evicts exactly the oldest sample.
\<close>

theorem ring_buffer_retains_most_recent:
  assumes "maxlen d = Some cap" and "length (items d) \<le> cap"
  shows "items (foldl deque_append d xs) = drop (length (items d @ xs) - cap) (items d @ xs)
       \<and> length (items (foldl deque_append d xs)) \<le> cap
       \<and> maxlen (foldl deque_append d xs) = Some cap
       \<and> (cap < length xs \<longrightarrow>
            items (foldl deque_append d xs) = drop (length xs - cap) xs
          \<and> length (items (foldl deque_append d xs)) = cap)
       \<and> (length (items d) = cap \<and> 0 < cap \<longrightarrow>
            items (deque_append d x) = tl (items d) @ [x])
       \<and> maxlen (video_buffer (BufferManager_init cv ca cm dir))
            = Some ((case cv of None \<Rightarrow> 30 | Some n \<Rightarrow> n) * 30)
       \<and> maxlen (audio_buffer (BufferManager_init cv ca cm dir))
            = Some ((case ca of None \<Rightarrow> 10 | Some n \<Rightarrow> n) * 160)"
proof -
  have a: "items (foldl deque_append d xs) = drop (length (items d @ xs) - cap) (items d @ xs)"
    by (rule items_foldl_deque_append[OF assms])
  have b: "length (items (foldl deque_append d xs)) \<le> cap"
    unfolding a by simp
  have c: "maxlen (foldl deque_append d xs) = Some cap"
    by (simp add: maxlen_foldl_deque_append assms)
  have d: "items (foldl deque_append d xs) = drop (length xs - cap) xs
          \<and> length (items (foldl deque_append d xs)) = cap" if "cap < length xs"
    unfolding a using that assms(2) by simp
  have e: "items (deque_append d x) = tl (items d) @ [x]" if "length (items d) = cap" "0 < cap"
    using that assms(1) by (cases "items d") (simp_all add: deque_append_def Let_def)
  have f: "maxlen (video_buffer (BufferManager_init cv ca cm dir))
            = Some ((case cv of None \<Rightarrow> 30 | Some n \<Rightarrow> n) * 30)"
    by (simp add: BufferManager_init_def Let_def)
  have g: "maxlen (audio_buffer (BufferManager_init cv ca cm dir))
            = Some ((case ca of None \<Rightarrow> 10 | Some n \<Rightarrow> n) * 160)"
    by (simp add: BufferManager_init_def Let_def)
  from a b c d e f g show ?thesis by blast
qed

theorem ring_buffer_retains_most_recent_witness:
  "maxlen small_deque = Some 2 \<and> length (items small_deque) \<le> 2
   \<and> items (foldl deque_append small_deque [2, 3, 4]) = [3, 4]
   \<and> items (deque_append (foldl deque_append small_deque [2, 3, 4]) 5) = [4, 5]"
proof -
  have h1: "maxlen small_deque = Some 2" by (simp add: small_deque_def)
  have h2: "length (items small_deque) \<le> 2" by (simp add: small_deque_def)
  have i: "items small_deque = [1]" by (simp add: small_deque_def)
  let ?d = "foldl deque_append small_deque [2, 3, 4]"
  from ring_buffer_retains_most_recent[OF h1 h2, of "[2, 3, 4]" 0 None None None "Path ''''"]
  have r: "items ?d = [3, 4]" "maxlen ?d = Some 2" "length (items ?d) \<le> 2"
    unfolding i by simp_all
  from ring_buffer_retains_most_recent[OF r(2) r(3), of "[]" 5 None None None "Path ''''"] r(1)
  have "items (deque_append ?d 5) = [4, 5]" by simp
  with h1 h2 r show ?thesis by simp
qed


section \<open>The ingest queues\<close>

lemma add_video_frame_eq:
  "add_video_frame frm ts now s =
     Inr (s\<lparr>video_queue :=
            (let q = video_queue s;
                 item = \<lparr>frame = frm, timestamp = (case ts of None \<Rightarrow> now | Some t \<Rightarrow> t)\<rparr>
             in if length q < maxsize then q @ [item]
                else if length q = maxsize then tl q @ [item]
                else tl q)\<rparr>)"
  by (cases "video_queue s")
     (auto simp: add_video_frame_def put_nowait_def get_nowait_def maxsize_def Let_def)

lemma add_audio_chunk_eq:
  "add_audio_chunk a ts now s =
     Inr (s\<lparr>audio_queue :=
            (let q = audio_queue s;
                 item = \<lparr>audio = a, timestamp = (case ts of None \<Rightarrow> now | Some t \<Rightarrow> t)\<rparr>
             in if length q < maxsize then q @ [item]
                else if length q = maxsize then tl q @ [item]
                else tl q)\<rparr>)"
  by (cases "audio_queue s")
     (auto simp: add_audio_chunk_def put_nowait_def get_nowait_def maxsize_def Let_def)









section \<open>Windowed reads\<close>

lemma sorted_map_filter: "sorted (map f xs) \<Longrightarrow> sorted (map f (filter P xs))"
  by (induction xs) auto

text \<open>
  Claim C4, as the code has it. The cutoff of a windowed read is the float the machine
  computes for \<^verbatim>\<open>current_time - duration\<close> (the duration defaulting to the configured buffer
  seconds); it is \<open>fsub now duration\<close> here, for any \<open>fsub\<close>. The read returns exactly the
  buffered samples whose timestamp is at least that cutoff, in the order in which the
  buffer holds them, and leaves the manager as it was. The result is in non-decreasing timestamp order whenever the
  buffer is; when no buffered sample reaches the cutoff the result is the empty list.
\<close>

theorem windowed_read_filters_in_buffer_order:
  assumes "vcut = fsub now (case dur of None \<Rightarrow> real (video_buffer_size s) | Some d \<Rightarrow> d)"
      and "acut = fsub now (case dur of None \<Rightarrow> real (audio_buffer_size s) | Some d \<Rightarrow> d)"
  shows "get_video_buffer fsub dur now s
           = (filter (\<lambda>f. vcut \<le> frame_data.timestamp f) (items (video_buffer s)), s)
       \<and> get_audio_buffer fsub dur now s
           = (filter (\<lambda>c. acut \<le> chunk_data.timestamp c) (items (audio_buffer s)), s)
       \<and> subseq (fst (get_video_buffer fsub dur now s)) (items (video_buffer s))
       \<and> subseq (fst (get_audio_buffer fsub dur now s)) (items (audio_buffer s))
       \<and> (sorted (map frame_data.timestamp (items (video_buffer s))) \<longrightarrow>
            sorted (map frame_data.timestamp (fst (get_video_buffer fsub dur now s))))
       \<and> (sorted (map chunk_data.timestamp (items (audio_buffer s))) \<longrightarrow>
            sorted (map chunk_data.timestamp (fst (get_audio_buffer fsub dur now s))))
       \<and> ((\<forall>f \<in> set (items (video_buffer s)). frame_data.timestamp f < vcut) \<longrightarrow>
            fst (get_video_buffer fsub dur now s) = [])
       \<and> ((\<forall>c \<in> set (items (audio_buffer s)). chunk_data.timestamp c < acut) \<longrightarrow>
            fst (get_audio_buffer fsub dur now s) = [])"
proof -
  have v: "get_video_buffer fsub dur now s
           = (filter (\<lambda>f. vcut \<le> frame_data.timestamp f) (items (video_buffer s)), s)"
    by (simp add: get_video_buffer_def assms(1))
  have a: "get_audio_buffer fsub dur now s
           = (filter (\<lambda>c. acut \<le> chunk_data.timestamp c) (items (audio_buffer s)), s)"
    by (simp add: get_audio_buffer_def assms(2))
  have ev: "fst (get_video_buffer fsub dur now s) = []"
    if "\<forall>f \<in> set (items (video_buffer s)). frame_data.timestamp f < vcut"
    unfolding v using that by (auto simp: filter_empty_conv)
  have ea: "fst (get_audio_buffer fsub dur now s) = []"
    if "\<forall>c \<in> set (items (audio_buffer s)). chunk_data.timestamp c < acut"
    unfolding a using that by (auto simp: filter_empty_conv)
  have sv: "subseq (fst (get_video_buffer fsub dur now s)) (items (video_buffer s))"
    unfolding v by simp
  have sa: "subseq (fst (get_audio_buffer fsub dur now s)) (items (audio_buffer s))"
    unfolding a by simp
  have ov: "sorted (map frame_data.timestamp (fst (get_video_buffer fsub dur now s)))"
    if "sorted (map frame_data.timestamp (items (video_buffer s)))"
    unfolding v using that by (simp add: sorted_map_filter)
  have oa: "sorted (map chunk_data.timestamp (fst (get_audio_buffer fsub dur now s)))"
    if "sorted (map chunk_data.timestamp (items (audio_buffer s)))"
    unfolding a using that by (simp add: sorted_map_filter)
  from v a ev ea sv sa ov oa show ?thesis by blast
qed

theorem windowed_read_filters_in_buffer_order_witness:
  "(2::real) = 10 - (case Some 8 of None \<Rightarrow> real (video_buffer_size with_preroll) | Some d \<Rightarrow> d)
   \<and> sorted (map frame_data.timestamp (items (video_buffer with_preroll)))
   \<and> map frame_data.timestamp (fst (get_video_buffer (-) (Some 8) 10 with_preroll)) = [7, 8, 9]
   \<and> sorted (map frame_data.timestamp (fst (get_video_buffer (-) (Some 8) 10 with_preroll)))
   \<and> fst (get_audio_buffer (-) (Some (- 10)) 10 with_preroll) = []"
proof -
  have b: "items (video_buffer with_preroll)
             = [\<lparr>frame = [1], timestamp = 7\<rparr>, \<lparr>frame = [2], timestamp = 8\<rparr>,
                \<lparr>frame = [3], timestamp = 9\<rparr>]"
          "items (audio_buffer with_preroll)
             = [\<lparr>audio = [4], timestamp = 8\<rparr>, \<lparr>audio = [5], timestamp = 9\<rparr>]"
    by (simp_all add: with_preroll_def)
  have h1: "(2::real) = 10 - (case Some 8 of None \<Rightarrow> real (video_buffer_size with_preroll) | Some d \<Rightarrow> d)"
    by simp
  have h2: "(2::real) = 10 - (case Some 8 of None \<Rightarrow> real (audio_buffer_size with_preroll) | Some d \<Rightarrow> d)"
    by simp
  have h3: "(20::real) = 10 - (case Some (- 10) of None \<Rightarrow> real (video_buffer_size with_preroll) | Some d \<Rightarrow> d)"
    by simp
  have h4: "(20::real) = 10 - (case Some (- 10) of None \<Rightarrow> real (audio_buffer_size with_preroll) | Some d \<Rightarrow> d)"
    by simp
  have h5: "sorted (map frame_data.timestamp (items (video_buffer with_preroll)))"
    by (simp add: b)
  have h6: "\<forall>c \<in> set (items (audio_buffer with_preroll)). chunk_data.timestamp c < 20"
    by (simp add: b)
  from windowed_read_filters_in_buffer_order[where fsub = "(-)", OF h1 h2] h5
  have r1: "map frame_data.timestamp (fst (get_video_buffer (-) (Some 8) 10 with_preroll)) = [7, 8, 9]"
           "sorted (map frame_data.timestamp (fst (get_video_buffer (-) (Some 8) 10 with_preroll)))"
    by (simp_all add: b)
  from windowed_read_filters_in_buffer_order[where fsub = "(-)", OF h3 h4] h6
  have r2: "fst (get_audio_buffer (-) (Some (- 10)) 10 with_preroll) = []"
    by blast
  from h1 h5 r1 r2 show ?thesis by blast
qed

text \<open>
  The claim as worded fails: the buffer is read in the order of appending, and a frame
  pushed with timestamp 5 followed by one pushed with timestamp 3 is returned in that
  order.
\<close>

theorem windowed_read_not_sorted_counterexample:
  "add_video_frame [1] (Some 5) 0 (start manager0) = Inr pushed_once
   \<and> add_video_frame [2] (Some 3) 0 pushed_once = Inr pushed_twice
   \<and> process_video_buffer 2 pushed_twice = buffered_out_of_order
   \<and> map frame_data.timestamp (fst (get_video_buffer (-) (Some 10) 6 buffered_out_of_order)) = [5, 3]
   \<and> \<not> sorted (map frame_data.timestamp (fst (get_video_buffer (-) (Some 10) 6 buffered_out_of_order)))"
proof -
  have q0: "video_queue (start manager0) = []"
    by (simp add: start_def emit_def manager0_def BufferManager_init_def Let_def)
  have 1: "add_video_frame [1] (Some 5) 0 (start manager0) = Inr pushed_once"
    by (simp add: add_video_frame_eq q0 maxsize_def pushed_once_def)
  have 2: "add_video_frame [2] (Some 3) 0 pushed_once = Inr pushed_twice"
    by (simp add: add_video_frame_eq maxsize_def pushed_once_def pushed_twice_def)
  have 3: "process_video_buffer 2 pushed_twice = buffered_out_of_order"
    by (simp add: numeral_2_eq_2 pushed_twice_def buffered_out_of_order_def
          process_video_buffer_pass_def deque_append_def start_def emit_def manager0_def
          BufferManager_init_def Let_def)
  have 4: "map frame_data.timestamp (fst (get_video_buffer (-) (Some 10) 6 buffered_out_of_order)) = [5, 3]"
    by (simp add: get_video_buffer_def buffered_out_of_order_def)
  from 1 2 3 4 show ?thesis by simp
qed

text \<open>
  Claim C5. Two windowed reads with the same cutoff (the same computed
  \<^verbatim>\<open>current_time - duration\<close>), the second made on the manager as the first left it, return
  equal sequences.
\<close>

theorem windowed_read_idempotent:
  assumes "fsub now1 d1 = fsub now2 d2"
  shows "fst (get_video_buffer fsub (Some d2) now2 (snd (get_video_buffer fsub (Some d1) now1 s)))
           = fst (get_video_buffer fsub (Some d1) now1 s)
       \<and> fst (get_audio_buffer fsub (Some d2) now2 (snd (get_audio_buffer fsub (Some d1) now1 s)))
           = fst (get_audio_buffer fsub (Some d1) now1 s)
       \<and> fst (get_video_buffer fsub None now1 (snd (get_video_buffer fsub None now1 s)))
           = fst (get_video_buffer fsub None now1 s)
       \<and> fst (get_audio_buffer fsub None now1 (snd (get_audio_buffer fsub None now1 s)))
           = fst (get_audio_buffer fsub None now1 s)"
  using assms by (simp add: get_video_buffer_def get_audio_buffer_def)

theorem windowed_read_idempotent_witness:
  "(10::real) - 2 = 11 - 3
   \<and> fst (get_video_buffer (-) (Some 3) 11 (snd (get_video_buffer (-) (Some 2) 10 with_preroll)))
       = fst (get_video_buffer (-) (Some 2) 10 with_preroll)
   \<and> map frame_data.timestamp (fst (get_video_buffer (-) (Some 2) 10 with_preroll)) = [8, 9]"
proof -
  have h: "(10::real) - 2 = 11 - 3" by simp
  have v: "map frame_data.timestamp (fst (get_video_buffer (-) (Some 2) 10 with_preroll)) = [8, 9]"
    by (simp add: get_video_buffer_def with_preroll_def)
  from windowed_read_idempotent[where fsub = "(-)", OF h, of with_preroll] h v
  show ?thesis by simp
qed


section \<open>Pushing and buffering\<close>

lemma mem_items_deque_append:
  "maxlen d \<noteq> Some 0 \<Longrightarrow> x \<in> set (items (deque_append d x))"
  by (cases "items d") (auto simp: deque_append_def Let_def split: option.splits)

text \<open>
  Claim C10. A push changes the ingest queue of its modality and nothing else: both ring
  buffers are as before, and a windowed read made right after the push returns what it
  returned before, so it does not show the pushed sample (unless an equal sample was
  buffered already). The sample reaches the ring buffer, and the windowed reads whose
  cutoff it passes, with the pass of the writer loop that dequeues it.
\<close>

theorem push_is_queued_not_buffered:
  assumes "add_video_frame frm ts now s = Inr sv"
      and "add_audio_chunk chunk ts now s = Inr sa"
      and "vitem = \<lparr>frame = frm, timestamp = (case ts of None \<Rightarrow> now | Some t' \<Rightarrow> t')\<rparr>"
      and "aitem = \<lparr>audio = chunk, timestamp = (case ts of None \<Rightarrow> now | Some t' \<Rightarrow> t')\<rparr>"
  shows "video_buffer sv = video_buffer s \<and> audio_buffer sv = audio_buffer s
       \<and> video_buffer sa = video_buffer s \<and> audio_buffer sa = audio_buffer s
       \<and> fst (get_video_buffer fsub dur t sv) = fst (get_video_buffer fsub dur t s)
       \<and> fst (get_audio_buffer fsub dur t sa) = fst (get_audio_buffer fsub dur t s)
       \<and> (vitem \<notin> set (items (video_buffer s)) \<longrightarrow> vitem \<notin> set (fst (get_video_buffer fsub dur t sv)))
       \<and> (aitem \<notin> set (items (audio_buffer s)) \<longrightarrow> aitem \<notin> set (fst (get_audio_buffer fsub dur t sa)))
       \<and> (video_queue s = [] \<and> is_running s \<longrightarrow>
            video_queue sv = [vitem]
          \<and> video_buffer (process_video_buffer 1 sv) = deque_append (video_buffer s) vitem)
       \<and> (audio_queue s = [] \<and> is_running s \<longrightarrow>
            audio_queue sa = [aitem]
          \<and> audio_buffer (process_audio_buffer 1 sa) = deque_append (audio_buffer s) aitem)
       \<and> (video_queue s = [] \<and> is_running s \<and> maxlen (video_buffer s) \<noteq> Some 0
            \<and> fsub t d \<le> frame_data.timestamp vitem \<longrightarrow>
            vitem \<in> set (fst (get_video_buffer fsub (Some d) t (process_video_buffer 1 sv))))
       \<and> (audio_queue s = [] \<and> is_running s \<and> maxlen (audio_buffer s) \<noteq> Some 0
            \<and> fsub t d \<le> chunk_data.timestamp aitem \<longrightarrow>
            aitem \<in> set (fst (get_audio_buffer fsub (Some d) t (process_audio_buffer 1 sa))))"
proof -
  define vq where "vq = (if length (video_queue s) < maxsize then video_queue s @ [vitem]
                         else if length (video_queue s) = maxsize then tl (video_queue s) @ [vitem]
                         else tl (video_queue s))"
  define aq where "aq = (if length (audio_queue s) < maxsize then audio_queue s @ [aitem]
                         else if length (audio_queue s) = maxsize then tl (audio_queue s) @ [aitem]
                         else tl (audio_queue s))"
  have sv: "sv = s\<lparr>video_queue := vq\<rparr>"
    using assms(1) unfolding add_video_frame_eq vq_def assms(3) Let_def
    by (auto split: if_splits)
  have sa: "sa = s\<lparr>audio_queue := aq\<rparr>"
    using assms(2) unfolding add_audio_chunk_eq aq_def assms(4) Let_def
    by (auto split: if_splits)
  have vq: "vq = [vitem]" if "video_queue s = []"
    using that by (simp add: vq_def maxsize_def)
  have aq: "aq = [aitem]" if "audio_queue s = []"
    using that by (simp add: aq_def maxsize_def)
  have b: "video_buffer sv = video_buffer s \<and> audio_buffer sv = audio_buffer s
       \<and> video_buffer sa = video_buffer s \<and> audio_buffer sa = audio_buffer s"
    by (simp add: sv sa)
  have rv: "fst (get_video_buffer fsub dur t sv) = fst (get_video_buffer fsub dur t s)"
    by (cases dur) (simp_all add: get_video_buffer_def sv)
  have ra: "fst (get_audio_buffer fsub dur t sa) = fst (get_audio_buffer fsub dur t s)"
    by (cases dur) (simp_all add: get_audio_buffer_def sa)
  have nv: "vitem \<notin> set (fst (get_video_buffer fsub dur t sv))" if "vitem \<notin> set (items (video_buffer s))"
    unfolding rv using that by (simp add: get_video_buffer_def)
  have na: "aitem \<notin> set (fst (get_audio_buffer fsub dur t sa))" if "aitem \<notin> set (items (audio_buffer s))"
    unfolding ra using that by (simp add: get_audio_buffer_def)
  have pv: "video_queue sv = [vitem]
          \<and> video_buffer (process_video_buffer 1 sv) = deque_append (video_buffer s) vitem"
    if "video_queue s = []" "is_running s"
    using that vq by (simp add: sv process_video_buffer_pass_def)
  have pa: "audio_queue sa = [aitem]
          \<and> audio_buffer (process_audio_buffer 1 sa) = deque_append (audio_buffer s) aitem"
    if "audio_queue s = []" "is_running s"
    using that aq by (simp add: sa process_audio_buffer_pass_def)
  have wv: "vitem \<in> set (fst (get_video_buffer fsub (Some d) t (process_video_buffer 1 sv)))"
    if "video_queue s = []" "is_running s" "maxlen (video_buffer s) \<noteq> Some 0"
       "fsub t d \<le> frame_data.timestamp vitem"
    using pv[OF that(1,2)] that(3,4) by (simp add: get_video_buffer_def mem_items_deque_append)
  have wa: "aitem \<in> set (fst (get_audio_buffer fsub (Some d) t (process_audio_buffer 1 sa)))"
    if "audio_queue s = []" "is_running s" "maxlen (audio_buffer s) \<noteq> Some 0"
       "fsub t d \<le> chunk_data.timestamp aitem"
    using pa[OF that(1,2)] that(3,4) by (simp add: get_audio_buffer_def mem_items_deque_append)
  from b rv ra nv na pv pa wv wa show ?thesis by blast
qed

theorem push_is_queued_not_buffered_witness:
  "add_video_frame [1] (Some 5) 0 (start manager0) = Inr pushed_once
   \<and> add_audio_chunk [4] (Some 5) 0 (start manager0) = Inr pushed_chunk
   \<and> video_buffer pushed_once = video_buffer (start manager0)
   \<and> fst (get_video_buffer (-) (Some 10) 6 pushed_once) = []
   \<and> fst (get_video_buffer (-) (Some 10) 6 (process_video_buffer 1 pushed_once))
        = [\<lparr>frame = [1], timestamp = 5\<rparr>]
   \<and> fst (get_audio_buffer (-) (Some 10) 6 pushed_chunk) = []
   \<and> fst (get_audio_buffer (-) (Some 10) 6 (process_audio_buffer 1 pushed_chunk))
        = [\<lparr>audio = [4], timestamp = 5\<rparr>]"
proof -
  have q0: "video_queue (start manager0) = []" "audio_queue (start manager0) = []"
      "is_running (start manager0)"
      "items (video_buffer (start manager0)) = []" "items (audio_buffer (start manager0)) = []"
      "maxlen (video_buffer (start manager0)) = Some 900"
      "maxlen (audio_buffer (start manager0)) = Some 1600"
    by (simp_all add: start_def emit_def manager0_def BufferManager_init_def Let_def)
  have 1: "add_video_frame [1] (Some 5) 0 (start manager0) = Inr pushed_once"
    by (simp add: add_video_frame_eq q0 maxsize_def pushed_once_def)
  have 2: "add_audio_chunk [4] (Some 5) 0 (start manager0) = Inr pushed_chunk"
    by (simp add: add_audio_chunk_eq q0 maxsize_def pushed_chunk_def)
  have r0: "fst (get_video_buffer (-) (Some 10) 6 (start manager0)) = []"
      "fst (get_audio_buffer (-) (Some 10) 6 (start manager0)) = []"
    by (simp_all add: get_video_buffer_def get_audio_buffer_def q0)
  note t = push_is_queued_not_buffered[OF 1 2 refl refl, where fsub = "(-)" and dur = "Some 10"
             and t = 6 and d = 4]
  from t have b: "video_buffer pushed_once = video_buffer (start manager0)" by blast
  from t r0 have e: "fst (get_video_buffer (-) (Some 10) 6 pushed_once) = []"
      "fst (get_audio_buffer (-) (Some 10) 6 pushed_chunk) = []" by simp_all
  from t q0 have p: "video_buffer (process_video_buffer 1 pushed_once)
        = deque_append (video_buffer (start manager0)) \<lparr>frame = [1], timestamp = 5\<rparr>"
      "audio_buffer (process_audio_buffer 1 pushed_chunk)
        = deque_append (audio_buffer (start manager0)) \<lparr>audio = [4], timestamp = 5\<rparr>"
    by simp_all
  have v: "fst (get_video_buffer (-) (Some 10) 6 (process_video_buffer 1 pushed_once))
        = [\<lparr>frame = [1], timestamp = 5\<rparr>]"
    unfolding get_video_buffer_def p by (simp add: deque_append_def q0 Let_def)
  have a: "fst (get_audio_buffer (-) (Some 10) 6 (process_audio_buffer 1 pushed_chunk))
        = [\<lparr>audio = [4], timestamp = 5\<rparr>]"
    unfolding get_audio_buffer_def p by (simp add: deque_append_def q0 Let_def)
  from 1 2 b e v a show ?thesis by simp
qed


section \<open>Incident recordings\<close>

lemma emit_fields:
  "incident_recordings (emit e s) = incident_recordings s"
  "video_buffer (emit e s) = video_buffer s"
  "audio_buffer (emit e s) = audio_buffer s"
  "video_queue (emit e s) = video_queue s"
  "audio_queue (emit e s) = audio_queue s"
  "output_dir (emit e s) = output_dir s"
  "audio_channels (emit e s) = audio_channels s"
  "audio_sample_rate (emit e s) = audio_sample_rate s"
  "effects (emit e s) = effects s @ [e]"
  by (simp_all add: emit_def)

lemma video_writes_append:
  "video_writes p (es @ fs) = video_writes p es @ video_writes p fs"
  by (induction p es rule: video_writes.induct) simp_all

lemma audio_writes_append:
  "audio_writes p (es @ fs) = audio_writes p es @ audio_writes p fs"
  by (induction p es rule: audio_writes.induct) simp_all

text \<open>A start on an id that is in the registry is turned down.\<close>

lemma start_rejected:
  "incident_recordings s iid \<noteq> None \<Longrightarrow>
   start_incident_recording io now iid ty s = (False, emit (Print (AlreadyInProgress iid)) s)"
  by (simp add: start_incident_recording_def)

text \<open>The state a start leaves when nothing raises.\<close>

lemma start_succeeds:
  assumes "incident_recordings s iid = None"
      and "\<not> mkdir_raises io" and "\<not> video_open_raises io" and "\<not> audio_open_raises io"
  shows "start_incident_recording io now iid ty s =
     (True,
      s\<lparr>incident_recordings := (incident_recordings s)(iid \<mapsto>
           \<lparr>type = ty, start_time = now, video_frames = [], audio_chunks = [],
            directory = Slash (output_dir s) iid,
            video_writer = Some (Slash (Slash (output_dir s) iid) (iid @ ''_video.mp4'')),
            audio_writer = Some (Slash (Slash (output_dir s) iid) (iid @ ''_audio.wav''))\<rparr>),
        effects := effects s @
          [Mkdir (Slash (output_dir s) iid),
           OpenVideoWriter (Slash (Slash (output_dir s) iid) (iid @ ''_video.mp4'')),
           OpenAudioWriter (Slash (Slash (output_dir s) iid) (iid @ ''_audio.wav'')),
           SetNChannels (Slash (Slash (output_dir s) iid) (iid @ ''_audio.wav''))
             (audio_channels s),
           SetSampWidth (Slash (Slash (output_dir s) iid) (iid @ ''_audio.wav'')) 2,
           SetFrameRate (Slash (Slash (output_dir s) iid) (iid @ ''_audio.wav''))
             (audio_sample_rate s),
           Print (StartedRecording iid)]\<rparr>)"
  using assms by (simp add: start_incident_recording_def Let_def emit_def)

text \<open>A start returns \<^verbatim>\<open>True\<close> only on an id that was not in the registry and when nothing
  raised.\<close>

lemma start_True_iff:
  "fst (start_incident_recording io now iid ty s) \<longleftrightarrow>
     incident_recordings s iid = None
     \<and> \<not> mkdir_raises io \<and> \<not> video_open_raises io \<and> \<not> audio_open_raises io"
  by (simp add: start_incident_recording_def Let_def)

lemma start_True_registers:
  "fst (start_incident_recording io now iid ty s) \<Longrightarrow>
   incident_recordings (snd (start_incident_recording io now iid ty s)) iid \<noteq> None"
  by (simp add: start_True_iff start_succeeds)

text \<open>Frames and chunks added to an active recording whose writers are set: an add whose
  write raises stores nothing, any other add stores one element.\<close>

lemma add_incident_frame_entry:
  "incident_recordings s iid = Some r \<Longrightarrow> video_writer r \<noteq> None \<Longrightarrow>
   incident_recordings (add_incident_frame raises t iid f s) iid
     = Some (if raises then r
             else r\<lparr>video_frames := video_frames r @ [\<lparr>frame = f, timestamp = t\<rparr>]\<rparr>)"
  by (auto simp: add_incident_frame_def Let_def emit_fields)

lemma add_incident_audio_entry:
  "incident_recordings s iid = Some r \<Longrightarrow> audio_writer r \<noteq> None \<Longrightarrow>
   incident_recordings (add_incident_audio raises t iid a s) iid
     = Some (if raises then r
             else r\<lparr>audio_chunks := audio_chunks r @ [\<lparr>audio = a, timestamp = t\<rparr>]\<rparr>)"
  by (auto simp: add_incident_audio_def Let_def emit_fields)

lemma add_incident_frames_entry:
  "incident_recordings s iid = Some r \<Longrightarrow> video_writer r \<noteq> None \<Longrightarrow>
   incident_recordings
     (foldl (\<lambda>s (raises, t, f). add_incident_frame raises t iid f s) s frames) iid
     = Some (r\<lparr>video_frames := video_frames r @
               map (\<lambda>(raises, t, f). \<lparr>frame = f, timestamp = t\<rparr>)
                 (filter (\<lambda>(raises, t, f). \<not> raises) frames)\<rparr>)"
proof (induction frames arbitrary: s r)
  case Nil
  then show ?case by simp
next
  case (Cons x frames)
  obtain b t f where x: "x = (b, t, f)" by (cases x)
  let ?r = "if b then r else r\<lparr>video_frames := video_frames r @ [\<lparr>frame = f, timestamp = t\<rparr>]\<rparr>"
  have e: "incident_recordings (add_incident_frame b t iid f s) iid = Some ?r"
    by (rule add_incident_frame_entry[OF Cons.prems])
  have w: "video_writer ?r \<noteq> None" using Cons.prems(2) by simp
  from Cons.IH[OF e w] show ?case by (simp add: x)
qed

lemma add_incident_audios_entry:
  "incident_recordings s iid = Some r \<Longrightarrow> audio_writer r \<noteq> None \<Longrightarrow>
   incident_recordings
     (foldl (\<lambda>s (raises, t, a). add_incident_audio raises t iid a s) s chunks) iid
     = Some (r\<lparr>audio_chunks := audio_chunks r @
               map (\<lambda>(raises, t, a). \<lparr>audio = a, timestamp = t\<rparr>)
                 (filter (\<lambda>(raises, t, a). \<not> raises) chunks)\<rparr>)"
proof (induction chunks arbitrary: s r)
  case Nil
  then show ?case by simp
next
  case (Cons x chunks)
  obtain b t a where x: "x = (b, t, a)" by (cases x)
  let ?r = "if b then r else r\<lparr>audio_chunks := audio_chunks r @ [\<lparr>audio = a, timestamp = t\<rparr>]\<rparr>"
  have e: "incident_recordings (add_incident_audio b t iid a s) iid = Some ?r"
    by (rule add_incident_audio_entry[OF Cons.prems])
  have w: "audio_writer ?r \<noteq> None" using Cons.prems(2) by simp
  from Cons.IH[OF e w] show ?case by (simp add: x)
qed

lemma filter_not_raises_all:
  "\<forall>x \<in> set xs. \<not> fst x \<Longrightarrow> filter (\<lambda>(raises, t, f). \<not> raises) xs = xs"
  by (induction xs) auto

text \<open>What a stop does to an active recording when nothing raises.\<close>

lemma stop_succeeds:
  assumes "incident_recordings s iid = Some r"
      and "\<not> release_raises io" and "\<not> close_raises io" and "\<not> dump_raises io"
  shows "stop_incident_recording io now iid s =
     (Some \<lparr>incident_id = iid, type = recording.type r, start_time = recording.start_time r,
            end_time = now, duration = now - recording.start_time r,
            video_frames_count = length (video_frames r),
            audio_chunks_count = length (audio_chunks r),
            directory = recording.directory r\<rparr>,
      s\<lparr>incident_recordings := (incident_recordings s)(iid := None),
        effects := effects s
          @ (case video_writer r of None \<Rightarrow> [] | Some w \<Rightarrow> [VideoRelease w])
          @ (case audio_writer r of None \<Rightarrow> [] | Some w \<Rightarrow> [AudioClose w])
          @ [JsonDump (Slash (recording.directory r) (iid @ ''_metadata.json''))
               \<lparr>incident_id = iid, type = recording.type r,
                start_time = recording.start_time r,
                end_time = now, duration = now - recording.start_time r,
                video_frames_count = length (video_frames r),
                audio_chunks_count = length (audio_chunks r),
                directory = recording.directory r\<rparr>,
             Print (StoppedRecording iid (now - recording.start_time r))]\<rparr>)"
  using assms
  by (simp add: stop_incident_recording_def Let_def emit_def split: option.splits)


text \<open>
  Claim C7, as the code has it. A start on an id that has an entry in the registry returns
  \<^verbatim>\<open>False\<close> and leaves the registry as it was. Of two starts on the same id, made one after
  the other as the registry lock makes them, never both return \<^verbatim>\<open>True\<close>; when the id is
  free and none of the outside calls of the first raises, the first returns \<^verbatim>\<open>True\<close>, the
  second \<^verbatim>\<open>False\<close>, and the second leaves the registry as the first left it.
\<close>

theorem at_most_one_recording_per_id:
  "(incident_recordings s iid \<noteq> None \<longrightarrow>
      fst (start_incident_recording io now iid ty s) = False
    \<and> incident_recordings (snd (start_incident_recording io now iid ty s))
        = incident_recordings s)
   \<and> \<not> (fst (start_incident_recording io1 t1 iid ty1 s)
        \<and> fst (start_incident_recording io2 t2 iid ty2
                 (snd (start_incident_recording io1 t1 iid ty1 s))))
   \<and> (incident_recordings s iid = None
        \<and> \<not> mkdir_raises io1 \<and> \<not> video_open_raises io1 \<and> \<not> audio_open_raises io1 \<longrightarrow>
        fst (start_incident_recording io1 t1 iid ty1 s) = True
      \<and> fst (start_incident_recording io2 t2 iid ty2
                (snd (start_incident_recording io1 t1 iid ty1 s))) = False
      \<and> incident_recordings (snd (start_incident_recording io2 t2 iid ty2
                (snd (start_incident_recording io1 t1 iid ty1 s))))
          = incident_recordings (snd (start_incident_recording io1 t1 iid ty1 s)))"
proof -
  have a: "fst (start_incident_recording io now iid ty s) = False
    \<and> incident_recordings (snd (start_incident_recording io now iid ty s))
        = incident_recordings s" if "incident_recordings s iid \<noteq> None" for io now ty s
    using that by (simp add: start_rejected emit_fields)
  have b: "\<not> fst (start_incident_recording io2 t2 iid ty2
                 (snd (start_incident_recording io1 t1 iid ty1 s)))"
    if "fst (start_incident_recording io1 t1 iid ty1 s)"
    using a[OF start_True_registers[OF that]] by simp
  have c: "fst (start_incident_recording io1 t1 iid ty1 s)"
    if "incident_recordings s iid = None"
       "\<not> mkdir_raises io1" "\<not> video_open_raises io1" "\<not> audio_open_raises io1"
    using that by (simp add: start_True_iff)
  from a[of s] a[OF start_True_registers] b c show ?thesis by blast
qed

theorem at_most_one_recording_per_id_witness:
  "incident_recordings manager0 ''inc1'' = None
   \<and> \<not> mkdir_raises start_ok \<and> \<not> video_open_raises start_ok \<and> \<not> audio_open_raises start_ok
   \<and> fst (start_incident_recording start_ok 10 ''inc1'' ''fight'' manager0) = True
   \<and> incident_recordings recording_inc1 ''inc1'' \<noteq> None
   \<and> fst (start_incident_recording start_ok 11 ''inc1'' ''theft'' recording_inc1) = False
   \<and> incident_recordings (snd (start_incident_recording start_ok 11 ''inc1'' ''theft'' recording_inc1))
       = incident_recordings recording_inc1"
proof -
  have h: "incident_recordings manager0 ''inc1'' = None"
    by (simp add: manager0_def BufferManager_init_def Let_def)
  have k: "\<not> mkdir_raises start_ok" "\<not> video_open_raises start_ok" "\<not> audio_open_raises start_ok"
    by (simp_all add: start_ok_def)
  note t = at_most_one_recording_per_id[of manager0 "''inc1''" start_ok 10 "''fight''"
             start_ok 10 "''fight''" start_ok 11 "''theft''"]
  from t h k have 1: "fst (start_incident_recording start_ok 10 ''inc1'' ''fight'' manager0) = True"
    by blast
  from t h k have 2: "fst (start_incident_recording start_ok 11 ''inc1'' ''theft'' recording_inc1) = False"
     "incident_recordings (snd (start_incident_recording start_ok 11 ''inc1'' ''theft'' recording_inc1))
       = incident_recordings recording_inc1"
    unfolding recording_inc1_def by blast+
  have 3: "incident_recordings recording_inc1 ''inc1'' \<noteq> None"
    unfolding recording_inc1_def using start_True_registers 1 by simp
  from h k 1 2 3 show ?thesis by simp
qed

text \<open>
  The claim as worded fails: of two starts of one id, both return \<^verbatim>\<open>False\<close> when creating
  the incident directory raises in each, and both return \<^verbatim>\<open>False\<close> when opening the audio
  writer raises in the first, although nothing raises in the second.
\<close>

theorem two_starts_none_succeeds_counterexample:
  "incident_recordings manager0 ''inc1'' = None
   \<and> fst (start_incident_recording mkdir_fails 10 ''inc1'' ''fight'' manager0) = False
   \<and> fst (start_incident_recording mkdir_fails 11 ''inc1'' ''fight''
             (snd (start_incident_recording mkdir_fails 10 ''inc1'' ''fight'' manager0))) = False
   \<and> fst (start_incident_recording audio_open_fails 10 ''inc1'' ''fight'' manager0) = False
   \<and> fst (start_incident_recording start_ok 11 ''inc1'' ''fight''
             (snd (start_incident_recording audio_open_fails 10 ''inc1'' ''fight'' manager0))) = False"
proof -
  have o: "incident_recordings manager0 ''inc1'' = None"
    by (simp add: manager0_def BufferManager_init_def Let_def)
  have a: "incident_recordings
        (snd (start_incident_recording audio_open_fails 10 ''inc1'' ''fight'' manager0)) ''inc1''
       \<noteq> None"
    by (simp add: start_incident_recording_def audio_open_fails_def o Let_def emit_def)
  from o a show ?thesis
    by (simp add: start_True_iff mkdir_fails_def audio_open_fails_def)
qed

text \<open>
  Claim C8, as the code has it. After a start that returned \<^verbatim>\<open>True\<close>, N calls of
  \<^verbatim>\<open>add_incident_frame\<close> and M calls of \<^verbatim>\<open>add_incident_audio\<close> on the same id (at any times,
  with any payloads), a stop in which nothing raises returns metadata whose
  \<^verbatim>\<open>video_frames_count\<close> is the number of the N calls whose write did not raise and whose
  \<^verbatim>\<open>audio_chunks_count\<close> is the number of the M calls whose write did not raise: N and M
  when no write raises. The registry has no entry for the id afterwards.
\<close>

theorem full_cycle_counts:
  assumes "start_incident_recording io t0 iid ty s = (True, s1)"
      and "s2 = foldl (\<lambda>s (raises, t, f). add_incident_frame raises t iid f s) s1 frames"
      and "s3 = foldl (\<lambda>s (raises, t, a). add_incident_audio raises t iid a s) s2 chunks"
      and "\<not> release_raises sio" and "\<not> close_raises sio" and "\<not> dump_raises sio"
  shows "map_option video_frames_count (fst (stop_incident_recording sio tstop iid s3))
           = Some (length (filter (\<lambda>(raises, t, f). \<not> raises) frames))
       \<and> map_option audio_chunks_count (fst (stop_incident_recording sio tstop iid s3))
           = Some (length (filter (\<lambda>(raises, t, a). \<not> raises) chunks))
       \<and> ((\<forall>x \<in> set frames. \<not> fst x) \<longrightarrow>
            map_option video_frames_count (fst (stop_incident_recording sio tstop iid s3))
              = Some (length frames))
       \<and> ((\<forall>x \<in> set chunks. \<not> fst x) \<longrightarrow>
            map_option audio_chunks_count (fst (stop_incident_recording sio tstop iid s3))
              = Some (length chunks))
       \<and> incident_recordings (snd (stop_incident_recording sio tstop iid s3)) iid = None"
proof -
  from assms(1) have ok: "fst (start_incident_recording io t0 iid ty s)" by simp
  then have c: "incident_recordings s iid = None"
      "\<not> mkdir_raises io" "\<not> video_open_raises io" "\<not> audio_open_raises io"
    by (simp_all add: start_True_iff)
  from start_succeeds[OF c, of t0 ty] assms(1)
  obtain r where r: "incident_recordings s1 iid = Some r"
      "video_frames r = []" "audio_chunks r = []"
      "video_writer r \<noteq> None" "audio_writer r \<noteq> None"
    by auto
  let ?r2 = "r\<lparr>video_frames := video_frames r @
               map (\<lambda>(raises, t, f). \<lparr>frame = f, timestamp = t\<rparr>)
                 (filter (\<lambda>(raises, t, f). \<not> raises) frames)\<rparr>"
  from add_incident_frames_entry[OF r(1) r(4), of frames]
  have r2: "incident_recordings s2 iid = Some ?r2"
    by (simp add: assms(2))
  have w2: "audio_writer ?r2 \<noteq> None" using r(5) by simp
  from add_incident_audios_entry[OF r2 w2, of chunks]
  have r3: "incident_recordings s3 iid
     = Some (?r2\<lparr>audio_chunks := audio_chunks ?r2 @
               map (\<lambda>(raises, t, a). \<lparr>audio = a, timestamp = t\<rparr>)
                 (filter (\<lambda>(raises, t, a). \<not> raises) chunks)\<rparr>)"
    by (simp add: assms(3))
  have v: "map_option video_frames_count (fst (stop_incident_recording sio tstop iid s3))
           = Some (length (filter (\<lambda>(raises, t, f). \<not> raises) frames))"
    by (simp add: stop_succeeds[OF r3 assms(4,5,6)] r(2,3))
  have a: "map_option audio_chunks_count (fst (stop_incident_recording sio tstop iid s3))
           = Some (length (filter (\<lambda>(raises, t, a). \<not> raises) chunks))"
    by (simp add: stop_succeeds[OF r3 assms(4,5,6)] r(2,3))
  have e: "incident_recordings (snd (stop_incident_recording sio tstop iid s3)) iid = None"
    by (simp add: stop_succeeds[OF r3 assms(4,5,6)])
  have v': "map_option video_frames_count (fst (stop_incident_recording sio tstop iid s3))
              = Some (length frames)" if "\<forall>x \<in> set frames. \<not> fst x"
    unfolding v by (simp add: filter_not_raises_all[OF that])
  have a': "map_option audio_chunks_count (fst (stop_incident_recording sio tstop iid s3))
              = Some (length chunks)" if "\<forall>x \<in> set chunks. \<not> fst x"
    unfolding a by (simp add: filter_not_raises_all[OF that])
  from v a v' a' e show ?thesis by blast
qed

theorem full_cycle_counts_witness:
  "fst (start_incident_recording start_ok 10 ''inc1'' ''fight'' manager0) = True
   \<and> \<not> release_raises stop_ok \<and> \<not> close_raises stop_ok \<and> \<not> dump_raises stop_ok
   \<and> map_option video_frames_count (fst (stop_incident_recording stop_ok 15 ''inc1''
        (foldl (\<lambda>s (raises, t, a). add_incident_audio raises t ''inc1'' a s)
          (foldl (\<lambda>s (raises, t, f). add_incident_frame raises t ''inc1'' f s) recording_inc1
             [(False, 11, [1]), (True, 12, [2]), (False, 13, [3])])
          [(False, 12, [4]), (False, 13, [5])]))) = Some 2
   \<and> map_option audio_chunks_count (fst (stop_incident_recording stop_ok 15 ''inc1''
        (foldl (\<lambda>s (raises, t, a). add_incident_audio raises t ''inc1'' a s)
          (foldl (\<lambda>s (raises, t, f). add_incident_frame raises t ''inc1'' f s) recording_inc1
             [(False, 11, [1]), (True, 12, [2]), (False, 13, [3])])
          [(False, 12, [4]), (False, 13, [5])]))) = Some 2"
proof -
  have h: "fst (start_incident_recording start_ok 10 ''inc1'' ''fight'' manager0) = True"
    by (simp add: start_True_iff start_ok_def manager0_def BufferManager_init_def Let_def)
  then have st: "start_incident_recording start_ok 10 ''inc1'' ''fight'' manager0
                   = (True, recording_inc1)"
    unfolding recording_inc1_def by (simp add: prod_eq_iff)
  have k: "\<not> release_raises stop_ok" "\<not> close_raises stop_ok" "\<not> dump_raises stop_ok"
    by (simp_all add: stop_ok_def)
  have l: "length (filter (\<lambda>(raises, t, f). \<not> raises)
                    [(False, 11::real, [1::int]), (True, 12, [2]), (False, 13, [3])]) = 2"
          "length (filter (\<lambda>(raises, t, f). \<not> raises)
                    [(False, 12::real, [4::int]), (False, 13, [5])]) = 2"
    by simp_all
  have c: "\<forall>x \<in> set [(False, 12::real, [4::int]), (False, 13, [5])]. \<not> fst x"
    by simp
  note t = full_cycle_counts[OF st refl refl k,
         where frames = "[(False, 11, [1]), (True, 12, [2]), (False, 13, [3])]"
         and chunks = "[(False, 12, [4]), (False, 13, [5])]" and tstop = 15, unfolded l]
  from t h k c show ?thesis by blast
qed

text \<open>
  The claim as worded fails: in a cycle with one call of \<^verbatim>\<open>add_incident_frame\<close> whose write
  raises, the stop reports zero frames; and a cycle with one frame whose stop fails to
  close the audio writer returns no metadata.
\<close>

theorem full_cycle_counts_counterexample:
  "fst (start_incident_recording start_ok 10 ''inc1'' ''fight'' manager0) = True
   \<and> map_option video_frames_count (fst (stop_incident_recording stop_ok 15 ''inc1''
        (add_incident_frame True 11 ''inc1'' [1] recording_inc1))) = Some 0
   \<and> fst (stop_incident_recording close_fails 15 ''inc1''
        (add_incident_frame False 11 ''inc1'' [1] recording_inc1)) = None"
proof -
  have o: "incident_recordings manager0 ''inc1'' = None"
    by (simp add: manager0_def BufferManager_init_def Let_def)
  have k: "\<not> mkdir_raises start_ok" "\<not> video_open_raises start_ok" "\<not> audio_open_raises start_ok"
    by (simp_all add: start_ok_def)
  have h: "fst (start_incident_recording start_ok 10 ''inc1'' ''fight'' manager0) = True"
    by (simp add: start_True_iff o k)
  have 1: "map_option video_frames_count (fst (stop_incident_recording stop_ok 15 ''inc1''
        (add_incident_frame True 11 ''inc1'' [1] recording_inc1))) = Some 0"
    unfolding recording_inc1_def
    by (simp add: start_succeeds[OF o k] add_incident_frame_def stop_incident_recording_def
          stop_ok_def Let_def emit_def)
  have 2: "fst (stop_incident_recording close_fails 15 ''inc1''
        (add_incident_frame False 11 ''inc1'' [1] recording_inc1)) = None"
    unfolding recording_inc1_def
    by (simp add: start_succeeds[OF o k] add_incident_frame_def stop_incident_recording_def
          close_fails_def Let_def emit_def)
  from h 1 2 show ?thesis by simp
qed

text \<open>
  Claim C1, as the code has it. A start that returns \<^verbatim>\<open>True\<close> opens the two writers and
  writes nothing to them: it reads neither ring buffer and leaves both as they were, the
  new entry holds no frame and no chunk, and the frames and chunks written to any path so
  far are the same after the start as before it. The first sample a writer receives
  after the start is the one passed by the next \<^verbatim>\<open>add_incident_frame\<close> or
  \<^verbatim>\<open>add_incident_audio\<close> for the id.
\<close>

theorem start_writes_no_preroll:
  assumes "start_incident_recording io now iid ty s = (True, s')"
      and "vpath = Slash (Slash (output_dir s) iid) (iid @ ''_video.mp4'')"
      and "apath = Slash (Slash (output_dir s) iid) (iid @ ''_audio.wav'')"
  shows "video_buffer s' = video_buffer s \<and> audio_buffer s' = audio_buffer s
       \<and> incident_recordings s' iid
           = Some \<lparr>type = ty, start_time = now, video_frames = [], audio_chunks = [],
                   directory = Slash (output_dir s) iid,
                   video_writer = Some vpath, audio_writer = Some apath\<rparr>
       \<and> video_writes p (effects s') = video_writes p (effects s)
       \<and> audio_writes p (effects s') = audio_writes p (effects s)
       \<and> video_writes vpath (effects (add_incident_frame False t iid f s'))
           = video_writes vpath (effects s) @ [f]
       \<and> audio_writes apath (effects (add_incident_audio False t iid a s'))
           = audio_writes apath (effects s) @ [a]"
proof -
  from assms(1) have ok: "fst (start_incident_recording io now iid ty s)" by simp
  then have c: "incident_recordings s iid = None"
      "\<not> mkdir_raises io" "\<not> video_open_raises io" "\<not> audio_open_raises io"
    by (simp_all add: start_True_iff)
  note st = start_succeeds[OF c, of now ty]
  from st assms(1) have b: "video_buffer s' = video_buffer s" "audio_buffer s' = audio_buffer s"
    by auto
  from st assms(1) have e: "incident_recordings s' iid
           = Some \<lparr>type = ty, start_time = now, video_frames = [], audio_chunks = [],
                   directory = Slash (output_dir s) iid,
                   video_writer = Some vpath, audio_writer = Some apath\<rparr>"
    unfolding assms(2,3) by auto
  from st assms(1) have w: "video_writes p (effects s') = video_writes p (effects s)"
      "audio_writes p (effects s') = audio_writes p (effects s)" for p
    by (auto simp: video_writes_append audio_writes_append)
  have fv: "video_writes vpath (effects (add_incident_frame False t iid f s'))
           = video_writes vpath (effects s) @ [f]"
    by (simp add: add_incident_frame_def e Let_def emit_def video_writes_append w)
  have fa: "audio_writes apath (effects (add_incident_audio False t iid a s'))
           = audio_writes apath (effects s) @ [a]"
    by (simp add: add_incident_audio_def e Let_def emit_def audio_writes_append w)
  from b e w fv fa show ?thesis by simp
qed

theorem start_writes_no_preroll_witness:
  "fst (start_incident_recording start_ok 10 ''inc1'' ''fight'' with_preroll) = True
   \<and> video_buffer (snd (start_incident_recording start_ok 10 ''inc1'' ''fight'' with_preroll))
       = video_buffer with_preroll
   \<and> video_writes (Slash (Slash (Path ''recordings'') ''inc1'') ''inc1_video.mp4'')
        (effects (snd (start_incident_recording start_ok 10 ''inc1'' ''fight'' with_preroll))) = []
   \<and> video_writes (Slash (Slash (Path ''recordings'') ''inc1'') ''inc1_video.mp4'')
        (effects (add_incident_frame False 11 ''inc1'' [9]
           (snd (start_incident_recording start_ok 10 ''inc1'' ''fight'' with_preroll)))) = [[9]]"
proof -
  have o: "output_dir with_preroll = Path ''recordings''"
      "effects with_preroll = [Mkdir (Path ''recordings''), Print Initialized, Print ManagerStarted]"
      "incident_recordings with_preroll ''inc1'' = None"
    by (simp_all add: with_preroll_def start_def emit_def manager0_def BufferManager_init_def Let_def)
  have h: "fst (start_incident_recording start_ok 10 ''inc1'' ''fight'' with_preroll) = True"
    by (simp add: start_True_iff start_ok_def o)
  then have st: "start_incident_recording start_ok 10 ''inc1'' ''fight'' with_preroll
      = (True, snd (start_incident_recording start_ok 10 ''inc1'' ''fight'' with_preroll))"
    by (simp add: prod_eq_iff)
  have p: "(Slash (Slash (Path ''recordings'') ''inc1'') ''inc1_video.mp4'')
       = Slash (Slash (output_dir with_preroll) ''inc1'') (''inc1'' @ ''_video.mp4'')"
    by (simp add: o Let_def)
  from start_writes_no_preroll[OF st p refl, of "(Slash (Slash (Path ''recordings'') ''inc1'') ''inc1_video.mp4'')" 11 "[9]"] h
  show ?thesis by (simp add: o)
qed

text \<open>
  The claim as worded fails: started on a manager whose ring buffers hold three frames and
  two chunks of pre-roll, the recording's writers have received nothing when the start
  returns, and the first frame the video writer receives is the live one.
\<close>

theorem start_preroll_counterexample:
  "fst (start_incident_recording start_ok 10 ''inc1'' ''fight'' with_preroll) = True
   \<and> map frame_data.frame (fst (get_video_buffer (-) None 10 with_preroll)) = [[1], [2], [3]]
   \<and> map chunk_data.audio (fst (get_audio_buffer (-) None 10 with_preroll)) = [[4], [5]]
   \<and> video_writes (Slash (Slash (Path ''recordings'') ''inc1'') ''inc1_video.mp4'')
        (effects (snd (start_incident_recording start_ok 10 ''inc1'' ''fight'' with_preroll))) = []
   \<and> audio_writes (Slash (Slash (Path ''recordings'') ''inc1'') ''inc1_audio.wav'')
        (effects (snd (start_incident_recording start_ok 10 ''inc1'' ''fight'' with_preroll))) = []
   \<and> video_writes (Slash (Slash (Path ''recordings'') ''inc1'') ''inc1_video.mp4'')
        (effects (add_incident_frame False 11 ''inc1'' [9]
           (snd (start_incident_recording start_ok 10 ''inc1'' ''fight'' with_preroll)))) = [[9]]"
proof -
  have o: "output_dir with_preroll = Path ''recordings''"
      "effects with_preroll = [Mkdir (Path ''recordings''), Print Initialized, Print ManagerStarted]"
      "incident_recordings with_preroll ''inc1'' = None"
      "audio_channels with_preroll = 1" "audio_sample_rate with_preroll = 16000"
      "video_buffer_size with_preroll = 30" "audio_buffer_size with_preroll = 10"
    by (simp_all add: with_preroll_def start_def emit_def manager0_def BufferManager_init_def Let_def)
  have k: "\<not> mkdir_raises start_ok" "\<not> video_open_raises start_ok" "\<not> audio_open_raises start_ok"
    by (simp_all add: start_ok_def)
  have r: "map frame_data.frame (fst (get_video_buffer (-) None 10 with_preroll)) = [[1], [2], [3]]"
      "map chunk_data.audio (fst (get_audio_buffer (-) None 10 with_preroll)) = [[4], [5]]"
    by (simp_all add: get_video_buffer_def get_audio_buffer_def o) (simp_all add: with_preroll_def)
  show ?thesis
    by (simp add: start_succeeds[OF o(3) k] r o add_incident_frame_def Let_def emit_def)
qed


text \<open>
  Claim C2, evaluated on the code. On the default manager, a start of \<^verbatim>\<open>inc1\<close> in which
  opening the audio writer raises returns \<^verbatim>\<open>False\<close>, and the registry keeps the entry
  made before the writers were opened, with the video writer set and the audio writer
  \<^verbatim>\<open>None\<close>; a later start of \<^verbatim>\<open>inc1\<close> in which nothing raises is turned down.
\<close>

theorem start_open_failure_keeps_entry:
  "incident_recordings manager0 ''inc1'' = None
   \<and> fst (start_incident_recording audio_open_fails 10 ''inc1'' ''fight'' manager0) = False
   \<and> incident_recordings
        (snd (start_incident_recording audio_open_fails 10 ''inc1'' ''fight'' manager0)) ''inc1''
       = Some \<lparr>type = ''fight'', start_time = 10, video_frames = [], audio_chunks = [],
               directory = (Slash (Path ''recordings'') ''inc1''),
               video_writer = Some (Slash (Slash (Path ''recordings'') ''inc1'') ''inc1_video.mp4''), audio_writer = None\<rparr>
   \<and> fst (start_incident_recording start_ok 11 ''inc1'' ''fight''
             (snd (start_incident_recording audio_open_fails 10 ''inc1'' ''fight'' manager0)))
       = False"
proof -
  have o: "incident_recordings manager0 ''inc1'' = None" "output_dir manager0 = Path ''recordings''"
    by (simp_all add: manager0_def BufferManager_init_def Let_def)
  have e: "incident_recordings
        (snd (start_incident_recording audio_open_fails 10 ''inc1'' ''fight'' manager0)) ''inc1''
       = Some \<lparr>type = ''fight'', start_time = 10, video_frames = [], audio_chunks = [],
               directory = (Slash (Path ''recordings'') ''inc1''),
               video_writer = Some (Slash (Slash (Path ''recordings'') ''inc1'') ''inc1_video.mp4''), audio_writer = None\<rparr>"
    by (simp add: start_incident_recording_def audio_open_fails_def o Let_def emit_def)
  have f: "fst (start_incident_recording audio_open_fails 10 ''inc1'' ''fight'' manager0) = False"
    by (simp add: start_True_iff audio_open_fails_def)
  have g: "fst (start_incident_recording start_ok 11 ''inc1'' ''fight''
             (snd (start_incident_recording audio_open_fails 10 ''inc1'' ''fight'' manager0)))
       = False"
    by (simp add: start_True_iff e)
  from o(1) e f g show ?thesis by simp
qed





end
